theory Spec2Isabelle
  imports Complex_Main "HOL-Library.Word"
begin

section \<open>Coordinates: IEEE doubles as extended reals with NaN\<close>

text \<open>
  \<^verbatim>\<open>coordinate_t\<close> and \<^verbatim>\<open>distance_t\<close> are \<^verbatim>\<open>double\<close> (spatial_types.h).
  The code tests for NaN and for non-finite values, so the three special values are part of
  the model. A finite double is modelled by the real number it denotes. The special values
  follow IEEE 754: NaN propagates through arithmetic and every comparison with NaN is false.
  The sign of zero is not modelled (a zero divisor counts as \<open>+0\<close>).

  Two kinds of arithmetic are defined. The operators \<open>+\<close>, \<open>-\<close>, \<open>*\<close> and \<open>/\<close>
  compute the exact real result on finite values (no rounding, no overflow to infinity).
  The function \<open>fl\<close> is the rounding of IEEE 754 binary64 (to nearest, ties to even, with
  subnormal numbers and overflow to infinity), and \<open>fsub\<close> and \<open>fdiv\<close> are the
  subtraction and division of doubles: the exact result, rounded. Which cell a raster lookup
  selects depends on the rounding, so the raster's index arithmetic uses \<open>fsub\<close> and
  \<open>fdiv\<close>. The other functions use the exact operators: the results about them state the
  formula that the code evaluates.
\<close>

datatype dbl = Num real | PosInf | NegInf | NaN

fun isfinite :: "dbl \<Rightarrow> bool" where
  "isfinite (Num _) = True"
| "isfinite _ = False"

fun isnan :: "dbl \<Rightarrow> bool" where
  "isnan NaN = True"
| "isnan _ = False"

fun dbl_neg :: "dbl \<Rightarrow> dbl" where
  "dbl_neg (Num a) = Num (- a)"
| "dbl_neg PosInf = NegInf"
| "dbl_neg NegInf = PosInf"
| "dbl_neg NaN = NaN"

fun dbl_add :: "dbl \<Rightarrow> dbl \<Rightarrow> dbl" where
  "dbl_add NaN _ = NaN"
| "dbl_add _ NaN = NaN"
| "dbl_add (Num a) (Num b) = Num (a + b)"
| "dbl_add PosInf NegInf = NaN"
| "dbl_add NegInf PosInf = NaN"
| "dbl_add PosInf _ = PosInf"
| "dbl_add NegInf _ = NegInf"
| "dbl_add _ PosInf = PosInf"
| "dbl_add _ NegInf = NegInf"

text \<open>The infinity with the sign of \<open>s\<close> (\<open>True\<close> is positive).\<close>

fun inf_of_sign :: "bool \<Rightarrow> dbl" where
  "inf_of_sign True = PosInf"
| "inf_of_sign False = NegInf"

fun dbl_mul :: "dbl \<Rightarrow> dbl \<Rightarrow> dbl" where
  "dbl_mul NaN _ = NaN"
| "dbl_mul _ NaN = NaN"
| "dbl_mul (Num a) (Num b) = Num (a * b)"
| "dbl_mul PosInf (Num b) = (if b = 0 then NaN else inf_of_sign (0 < b))"
| "dbl_mul NegInf (Num b) = (if b = 0 then NaN else inf_of_sign (b < 0))"
| "dbl_mul (Num a) PosInf = (if a = 0 then NaN else inf_of_sign (0 < a))"
| "dbl_mul (Num a) NegInf = (if a = 0 then NaN else inf_of_sign (a < 0))"
| "dbl_mul PosInf PosInf = PosInf"
| "dbl_mul NegInf NegInf = PosInf"
| "dbl_mul PosInf NegInf = NegInf"
| "dbl_mul NegInf PosInf = NegInf"

fun dbl_div :: "dbl \<Rightarrow> dbl \<Rightarrow> dbl" where
  "dbl_div NaN _ = NaN"
| "dbl_div _ NaN = NaN"
| "dbl_div (Num a) (Num b) =
     (if b = 0 then (if a = 0 then NaN else inf_of_sign (0 < a)) else Num (a / b))"
| "dbl_div (Num a) _ = Num 0"
| "dbl_div PosInf (Num b) = inf_of_sign (0 \<le> b)"
| "dbl_div NegInf (Num b) = inf_of_sign (b < 0)"
| "dbl_div _ _ = NaN"

fun dbl_less :: "dbl \<Rightarrow> dbl \<Rightarrow> bool" where
  "dbl_less (Num a) (Num b) = (a < b)"
| "dbl_less (Num a) PosInf = True"
| "dbl_less NegInf (Num b) = True"
| "dbl_less NegInf PosInf = True"
| "dbl_less _ _ = False"

fun dbl_less_eq :: "dbl \<Rightarrow> dbl \<Rightarrow> bool" where
  "dbl_less_eq (Num a) (Num b) = (a \<le> b)"
| "dbl_less_eq (Num a) PosInf = True"
| "dbl_less_eq NegInf (Num b) = True"
| "dbl_less_eq NegInf PosInf = True"
| "dbl_less_eq PosInf PosInf = True"
| "dbl_less_eq NegInf NegInf = True"
| "dbl_less_eq _ _ = False"

text \<open>\<^verbatim>\<open>std::exp\<close> and \<^verbatim>\<open>std::sqrt\<close> on the special values, as IEEE 754 has them.\<close>

fun dbl_exp :: "dbl \<Rightarrow> dbl" where
  "dbl_exp (Num a) = Num (exp a)"
| "dbl_exp PosInf = PosInf"
| "dbl_exp NegInf = Num 0"
| "dbl_exp NaN = NaN"

fun dbl_sqrt :: "dbl \<Rightarrow> dbl" where
  "dbl_sqrt (Num a) = (if a < 0 then NaN else Num (sqrt a))"
| "dbl_sqrt PosInf = PosInf"
| "dbl_sqrt NegInf = NaN"
| "dbl_sqrt NaN = NaN"

instantiation dbl :: "{zero, one, plus, minus, uminus, times, inverse, ord}"
begin

definition zero_dbl_def [simp]: "0 = Num 0"
definition one_dbl_def [simp]: "1 = Num 1"
definition plus_dbl_def [simp]: "a + b = dbl_add a b"
definition uminus_dbl_def [simp]: "- a = dbl_neg a"
definition minus_dbl_def [simp]: "a - b = dbl_add a (dbl_neg b)"
definition times_dbl_def [simp]: "a * b = dbl_mul a b"
definition divide_dbl_def [simp]: "a div b = dbl_div a b"
definition inverse_dbl_def [simp]: "inverse a = dbl_div (Num 1) a"
definition less_dbl_def [simp]: "a < b = dbl_less a b"
definition less_eq_dbl_def [simp]: "a \<le> b = dbl_less_eq a b"

instance ..

end

subsection \<open>Rounding to binary64\<close>

text \<open>Rounding to the nearest integer, a tie going to the even one.\<close>

definition round_half_even :: "real \<Rightarrow> int" where
  "round_half_even t =
     (let f = \<lfloor>t\<rfloor>; r = t - of_int f
      in if r < 1 / 2 then f else if 1 / 2 < r then f + 1 else if even f then f else f + 1)"

text \<open>The exponent of the binade of a positive real \<open>a\<close>, not below the exponent
  \<open>-1022\<close> of the subnormal numbers.\<close>

definition binary64_exponent :: "real \<Rightarrow> int" where
  "binary64_exponent a = max (- 1022) \<lfloor>log 2 a\<rfloor>"

text \<open>
  The double nearest to a real \<open>x\<close>: \<open>\<bar>x\<bar>\<close> is rounded to a multiple of the unit in the
  last place of its binade (53 significant bits, so the unit is \<open>2 powi (e - 52)\<close> for the
  exponent \<open>e\<close>), and a result of \<open>2 ^ 1024\<close> or more is an infinity.
\<close>

definition fl :: "real \<Rightarrow> dbl" where
  "fl x =
     (if x = 0 then Num 0
      else let ulp = 2 powi (binary64_exponent \<bar>x\<bar> - 52);
               m = of_int (round_half_even (\<bar>x\<bar> / ulp)) * ulp
           in if 2 ^ 1024 \<le> m then inf_of_sign (0 < x) else Num (sgn x * m))"

fun rounded :: "dbl \<Rightarrow> dbl" where
  "rounded (Num a) = fl a"
| "rounded PosInf = PosInf"
| "rounded NegInf = NegInf"
| "rounded NaN = NaN"

text \<open>\<^verbatim>\<open>a - b\<close> and \<^verbatim>\<open>a / b\<close> on doubles.\<close>

definition fsub :: "dbl \<Rightarrow> dbl \<Rightarrow> dbl" where
  "fsub a b = rounded (a - b)"

definition fdiv :: "dbl \<Rightarrow> dbl \<Rightarrow> dbl" where
  "fdiv a b = rounded (a / b)"

section \<open>Points (spatial\_types.h, spatial\_util.h)\<close>

type_synonym point_2d_t = "dbl \<times> dbl"
type_synonym point_3d_t = "dbl \<times> dbl \<times> dbl"

fun get_x :: "point_3d_t \<Rightarrow> dbl" where "get_x (x, y, z) = x"
fun get_y :: "point_3d_t \<Rightarrow> dbl" where "get_y (x, y, z) = y"
fun get_z :: "point_3d_t \<Rightarrow> dbl" where "get_z (x, y, z) = z"

text \<open>Z values are tested first, as in the source.\<close>

definition has_non_finite_coordinate_value :: "point_3d_t \<Rightarrow> bool" where
  "has_non_finite_coordinate_value point =
     (\<not> isfinite (get_z point) \<or> \<not> isfinite (get_x point) \<or> \<not> isfinite (get_y point))"

definition nan_point :: point_3d_t where
  "nan_point = (NaN, NaN, NaN)"

definition get_xy_point :: "point_3d_t \<Rightarrow> point_2d_t" where
  "get_xy_point point_3d = (get_x point_3d, get_y point_3d)"

section \<open>Failures\<close>

text \<open>
  Every \<^verbatim>\<open>throw\<close> of the source is a value of this type. \<open>InvalidCoordinate\<close> is the
  \<^verbatim>\<open>std::runtime_error\<close> of a raster lookup with NaN coordinates, \<open>OutOfExtent\<close> the
  \<^verbatim>\<open>std::out_of_range\<close> of a lookup outside the raster, \<open>ShapeMismatch\<close> the
  \<^verbatim>\<open>std::runtime_error\<close> of \<^verbatim>\<open>copy_w_new_values\<close>, \<open>DegenerateSum\<close> the failure of the
  weighted mean on a zero weight sum. \<open>UndefinedBehaviour\<close> marks the places where C++ leaves
  the behaviour undefined: a vector read out of bounds and a conversion of a double to
  \<^verbatim>\<open>std::size_t\<close> whose truncated value \<^verbatim>\<open>std::size_t\<close> cannot represent.
\<close>

datatype error =
  InvalidCoordinate | OutOfExtent | ShapeMismatch | DegenerateSum | UndefinedBehaviour

text \<open>\<^verbatim>\<open>std::size_t\<close> has 64 bits on the target (x86\_64-w64-mingw32).\<close>

type_synonym size_t = "64 word"

text \<open>\<^verbatim>\<open>v[i]\<close> on a \<^verbatim>\<open>std::vector\<close>.\<close>

definition vec_at :: "'a list \<Rightarrow> nat \<Rightarrow> error + 'a" where
  "vec_at v i = (if i < length v then Inr (v ! i) else Inl UndefinedBehaviour)"

text \<open>Truncation towards zero, the rounding of a floating-integral conversion.\<close>

definition trunc :: "real \<Rightarrow> int" where
  "trunc a = (if 0 \<le> a then \<lfloor>a\<rfloor> else \<lceil>a\<rceil>)"

text \<open>\<^verbatim>\<open>static_cast< std::size_t >( d )\<close>.\<close>

fun to_size_t :: "dbl \<Rightarrow> error + size_t" where
  "to_size_t (Num a) =
     (if 0 \<le> trunc a \<and> trunc a < 2 ^ 64 then Inr (word_of_int (trunc a))
      else Inl UndefinedBehaviour)"
| "to_size_t _ = Inl UndefinedBehaviour"

text \<open>The conversion of a \<^verbatim>\<open>std::size_t\<close> to \<^verbatim>\<open>double\<close> in mixed arithmetic; a number
  of more than 53 bits is rounded.\<close>

definition of_size_t :: "size_t \<Rightarrow> dbl" where
  "of_size_t n = fl (real (unat n))"

section \<open>Rasters (spatial\_raster.h)\<close>

text \<open>
  The members of \<^verbatim>\<open>Raster\<close> are private and constant, set by its only constructor from
  the seven constructor arguments; \<^verbatim>\<open>_row_height\<close> and \<^verbatim>\<open>_col_width\<close> are computed there
  from the others, in double arithmetic. The record holds the seven arguments, and the two derived members are
  functions of them, so every record value is a raster the constructor can build.
\<close>

record 'a Raster =
  values_r :: "'a list"
  num_rows :: size_t
  num_cols :: size_t
  x_min :: dbl
  x_max :: dbl
  y_min :: dbl
  y_max :: dbl

definition row_height :: "'a Raster \<Rightarrow> dbl" where
  "row_height r = fdiv (fsub (y_max r) (y_min r)) (of_size_t (num_rows r))"

definition col_width :: "'a Raster \<Rightarrow> dbl" where
  "col_width r = fdiv (fsub (x_max r) (x_min r)) (of_size_t (num_cols r))"

definition has_value_at_xy_of :: "'a Raster \<Rightarrow> point_3d_t \<Rightarrow> bool" where
  "has_value_at_xy_of r point =
     (x_min r \<le> get_x point \<and> get_x point \<le> x_max r \<and>
      y_min r \<le> get_y point \<and> get_y point \<le> y_max r)"

text \<open>
  The index expression \<^verbatim>\<open>_num_cols * row_index + col_index\<close> of
  \<^verbatim>\<open>no_throw_value_at_xy_of\<close>, in \<^verbatim>\<open>std::size_t\<close> arithmetic, with the two conversions
  and the two decrements before it.
\<close>

definition flat_index_at_xy_of :: "'a Raster \<Rightarrow> point_3d_t \<Rightarrow> error + size_t" where
  "flat_index_at_xy_of r point =
     (case to_size_t (fdiv (fsub (y_max r) (get_y point)) (row_height r)) of
        Inl e \<Rightarrow> Inl e
      | Inr row_index0 \<Rightarrow>
          (let row_index = (if row_index0 = num_rows r then row_index0 - 1 else row_index0) in
           case to_size_t (fdiv (fsub (get_x point) (x_min r)) (col_width r)) of
             Inl e \<Rightarrow> Inl e
           | Inr col_index0 \<Rightarrow>
               (let col_index = (if col_index0 = num_cols r then col_index0 - 1 else col_index0)
                in Inr (num_cols r * row_index + col_index))))"

definition no_throw_value_at_xy_of :: "'a Raster \<Rightarrow> point_3d_t \<Rightarrow> error + 'a" where
  "no_throw_value_at_xy_of r point =
     (case flat_index_at_xy_of r point of
        Inl e \<Rightarrow> Inl e
      | Inr i \<Rightarrow> vec_at (values_r r) (unat i))"

definition value_at_xy_of :: "'a Raster \<Rightarrow> point_3d_t \<Rightarrow> error + 'a" where
  "value_at_xy_of r point =
     (if isnan (get_x point) \<or> isnan (get_y point) then Inl InvalidCoordinate
      else if \<not> has_value_at_xy_of r point then Inl OutOfExtent
      else no_throw_value_at_xy_of r point)"

definition copy_w_new_values :: "'a Raster \<Rightarrow> 'a list \<Rightarrow> error + 'a Raster" where
  "copy_w_new_values r new_values =
     (if length new_values \<noteq> length (values_r r) then Inl ShapeMismatch
      else Inr \<lparr>values_r = new_values, num_rows = num_rows r, num_cols = num_cols r,
                x_min = x_min r, x_max = x_max r, y_min = y_min r, y_max = y_max r\<rparr>)"

text \<open>
  \<^verbatim>\<open>Single_value_pseudo_raster\<close> keeps its value and the one-element vector
  \<^verbatim>\<open>{value}\<close> that \<^verbatim>\<open>values()\<close> returns; both are set by its only constructor.
\<close>

datatype 'a Single_value_pseudo_raster = Single_value_pseudo_raster 'a

fun sv_values :: "'a Single_value_pseudo_raster \<Rightarrow> 'a list" where
  "sv_values (Single_value_pseudo_raster v) = [v]"

fun sv_copy_w_new_values ::
  "'a Single_value_pseudo_raster \<Rightarrow> 'a list \<Rightarrow> error + 'a Single_value_pseudo_raster" where
  "sv_copy_w_new_values s new_values =
     (if length new_values \<noteq> 1 then Inl ShapeMismatch
      else Inr (Single_value_pseudo_raster (new_values ! 0)))"

fun sv_has_value_at_xy_of :: "'a Single_value_pseudo_raster \<Rightarrow> point_3d_t \<Rightarrow> bool" where
  "sv_has_value_at_xy_of s point = True"

fun sv_value_at_xy_of :: "'a Single_value_pseudo_raster \<Rightarrow> point_3d_t \<Rightarrow> error + 'a" where
  "sv_value_at_xy_of (Single_value_pseudo_raster v) point = Inr v"


text \<open>The interface \<^verbatim>\<open>I_Raster\<close> with its two implementations; a call dispatches on the
  dynamic type.\<close>

datatype 'a I_Raster = Single "'a Single_value_pseudo_raster" | Grid "'a Raster"

fun I_values :: "'a I_Raster \<Rightarrow> 'a list" where
  "I_values (Single s) = sv_values s"
| "I_values (Grid r) = values_r r"

fun I_copy_w_new_values :: "'a I_Raster \<Rightarrow> 'a list \<Rightarrow> error + 'a I_Raster" where
  "I_copy_w_new_values (Single s) new_values = map_sum id Single (sv_copy_w_new_values s new_values)"
| "I_copy_w_new_values (Grid r) new_values = map_sum id Grid (copy_w_new_values r new_values)"


section \<open>Filtering iterators and index creation (spatial\_index\_creation.h)\<close>

text \<open>
  Each iterator holds \<^verbatim>\<open>_ptr\<close> and \<^verbatim>\<open>_end_ptr\<close> into the point vector. The model keeps
  the range between the two pointers as the list of the points still to visit:
  \<^verbatim>\<open>_ptr == _end_ptr\<close> is the empty list, \<^verbatim>\<open>*_ptr\<close> its head and \<^verbatim>\<open>_ptr++\<close> its tail.
  The R*-tree built from a pair of iterators holds the points the first one yields until
  it equals the second; the index is modelled by the list of these points.
\<close>

type_synonym index_for_3d_points_t = "point_3d_t list"

subsection \<open>\<^verbatim>\<open>_Finite_points_above_height_iterator\<close>\<close>

fun fpah_skip_current_point :: "dbl \<Rightarrow> point_3d_t list \<Rightarrow> bool" where
  "fpah_skip_current_point min_height [] = False"
| "fpah_skip_current_point min_height (p # ps) =
     (if has_non_finite_coordinate_value p then True else get_z p < min_height)"

text \<open>The loop \<^verbatim>\<open>while (_skip_current_point()) { _ptr++; }\<close> of the constructor and of
  \<^verbatim>\<open>operator++\<close>.\<close>

fun fpah_skip_loop :: "dbl \<Rightarrow> point_3d_t list \<Rightarrow> point_3d_t list" where
  "fpah_skip_loop min_height [] = []"
| "fpah_skip_loop min_height (p # ps) =
     (if fpah_skip_current_point min_height (p # ps) then fpah_skip_loop min_height ps
      else p # ps)"


definition fpah_cend :: "point_3d_t list \<Rightarrow> dbl \<Rightarrow> point_3d_t list" where
  "fpah_cend points min_height = fpah_skip_loop min_height []"



subsection \<open>\<^verbatim>\<open>_Finite_points_above_ground_iterator\<close>\<close>

fun fpag_skip_current_point :: "dbl \<Rightarrow> dbl Raster \<Rightarrow> point_3d_t list \<Rightarrow> error + bool" where
  "fpag_skip_current_point min_height_above_ground ground_height_grid [] = Inr False"
| "fpag_skip_current_point min_height_above_ground ground_height_grid (p # ps) =
     (if has_non_finite_coordinate_value p then Inr True
      else case no_throw_value_at_xy_of ground_height_grid p of
             Inl e \<Rightarrow> Inl e
           | Inr ground_height \<Rightarrow>
               (let point_height_above_ground = get_z p - ground_height
                in Inr (\<not> isfinite point_height_above_ground \<or>
                        point_height_above_ground < min_height_above_ground)))"

fun fpag_skip_loop :: "dbl \<Rightarrow> dbl Raster \<Rightarrow> point_3d_t list \<Rightarrow> error + point_3d_t list" where
  "fpag_skip_loop min_height_above_ground ground_height_grid [] = Inr []"
| "fpag_skip_loop min_height_above_ground ground_height_grid (p # ps) =
     (case fpag_skip_current_point min_height_above_ground ground_height_grid (p # ps) of
        Inl e \<Rightarrow> Inl e
      | Inr skip \<Rightarrow>
          (if skip then fpag_skip_loop min_height_above_ground ground_height_grid ps
           else Inr (p # ps)))"

definition fpag_cbegin ::
  "point_3d_t list \<Rightarrow> dbl \<Rightarrow> dbl Raster \<Rightarrow> error + point_3d_t list" where
  "fpag_cbegin points min_height_above_ground ground_height_grid =
     fpag_skip_loop min_height_above_ground ground_height_grid points"

function fpag_yield :: "dbl \<Rightarrow> dbl Raster \<Rightarrow> point_3d_t list \<Rightarrow> error + point_3d_t list" where
  "fpag_yield min_height_above_ground ground_height_grid [] = Inr []"
| "fpag_yield min_height_above_ground ground_height_grid (p # ps) =
     (case fpag_skip_loop min_height_above_ground ground_height_grid ps of
        Inl e \<Rightarrow> Inl e
      | Inr it \<Rightarrow>
          (case fpag_yield min_height_above_ground ground_height_grid it of
             Inl e \<Rightarrow> Inl e
           | Inr yielded \<Rightarrow> Inr (p # yielded)))"
  by pat_completeness auto
termination
proof (relation "measure (\<lambda>(min_height_above_ground, ground_height_grid, it). length it)")
  show "wf (measure (\<lambda>(min_height_above_ground, ground_height_grid, it). length it))"
    by simp
next
  fix m :: dbl and g :: "dbl Raster" and p :: point_3d_t and ps it :: "point_3d_t list"
  assume a: "fpag_skip_loop m g ps = Inr it"
  have "fpag_skip_loop m g qs = Inr it \<Longrightarrow> length it \<le> length qs" for qs
    by (induction qs) (auto split: sum.splits if_splits)
  with a show "((m, g, it), (m, g, p # ps))
                 \<in> measure (\<lambda>(min_height_above_ground, ground_height_grid, it). length it)"
    by fastforce
qed

definition create_index_of_above_ground ::
  "point_3d_t list \<Rightarrow> dbl \<Rightarrow> dbl Raster \<Rightarrow> error + index_for_3d_points_t" where
  "create_index_of_above_ground points min_height_above_ground ground_height_grid =
     (case fpag_cbegin points min_height_above_ground ground_height_grid of
        Inl e \<Rightarrow> Inl e
      | Inr it \<Rightarrow> fpag_yield min_height_above_ground ground_height_grid it)"

subsection \<open>\<^verbatim>\<open>_Finite_points_above_height_grid_iterator\<close>\<close>






section \<open>Horizontal distance test (spatial\_util.h)\<close>

text \<open>
  Boost.Geometry's \<^verbatim>\<open>comparable_distance\<close> of two cartesian points is their squared
  Euclidean distance.
\<close>

fun comparable_distance :: "point_2d_t \<Rightarrow> point_2d_t \<Rightarrow> dbl" where
  "comparable_distance (x1, y1) (x2, y2) = (x1 - x2) * (x1 - x2) + (y1 - y2) * (y1 - y2)"

record within_xy_distance_functor =
  wxy_xy_point :: point_2d_t
  wxy_comparable_distance :: dbl

definition make_within_xy_distance_functor ::
  "point_2d_t \<Rightarrow> dbl \<Rightarrow> within_xy_distance_functor" where
  "make_within_xy_distance_functor xy_point distance =
     \<lparr>wxy_xy_point = xy_point,
      wxy_comparable_distance = comparable_distance (Num 0, Num 0) (Num 0, distance)\<rparr>"

definition within_xy_distance :: "within_xy_distance_functor \<Rightarrow> point_3d_t \<Rightarrow> bool" where
  "within_xy_distance f point =
     (comparable_distance (get_xy_point point) (wxy_xy_point f) \<le> wxy_comparable_distance f)"

section \<open>Kernel helpers and profile functions (ams3d.h)\<close>

definition bottom_height_above_ground_with :: "dbl \<Rightarrow> dbl \<Rightarrow> dbl" where
  "bottom_height_above_ground_with point_height_above_ground crown_height_to_tree_height =
     (let bottom_height_above_ground =
            point_height_above_ground -
            point_height_above_ground * crown_height_to_tree_height * Num 0.25
      in if bottom_height_above_ground < Num 0 then Num 0 else bottom_height_above_ground)"

text \<open>The lambda passed to \<^verbatim>\<open>std::transform\<close> repeats the body of the scalar helper.\<close>

definition bottom_height_above_ground_grid_with :: "dbl \<Rightarrow> dbl I_Raster \<Rightarrow> error + dbl I_Raster" where
  "bottom_height_above_ground_grid_with point_height_above_ground crown_height_to_tree_height_grid =
     (let bottom_heights =
            map (\<lambda>crown_height_to_tree_height.
                   let bottom_height_above_ground =
                         point_height_above_ground -
                         point_height_above_ground * crown_height_to_tree_height * Num 0.25
                   in if bottom_height_above_ground < Num 0 then Num 0
                      else bottom_height_above_ground)
                (I_values crown_height_to_tree_height_grid)
      in I_copy_w_new_values crown_height_to_tree_height_grid bottom_heights)"

definition gaussian_gamma :: dbl where
  "gaussian_gamma = Num (- 5)"

definition gauss_unsquared :: "dbl \<Rightarrow> dbl" where
  "gauss_unsquared x = dbl_exp (gaussian_gamma * x)"

definition epanechnikov_unsquared :: "dbl \<Rightarrow> dbl" where
  "epanechnikov_unsquared x = Num 1 - x"

section \<open>Kernel and mean-shift driver\<close>

text \<open>
  ams3d.h declares the class \<^verbatim>\<open>_Kernel\<close> and the functions \<^verbatim>\<open>calculate_a_single_mode\<close>
  and \<^verbatim>\<open>calculate_a_single_mode_plus_centroids\<close>; spatial\_util.h declares
  \<^verbatim>\<open>get_points_intersecting_vertical_cylinder\<close> and \<^verbatim>\<open>weighted_mean_of\<close>. Their bodies
  are not among the sources, so this section follows the specification (sections 4.3 to 4.6)
  for the variant with normalized heights.
\<close>

text \<open>Modelled from the spec: the sums \<open>\<Sigma> w\<^sub>i\<close> and \<open>\<Sigma> w\<^sub>i p\<^sub>i\<close> of section 4.4, added up
  from zero in the order of the vector.\<close>

definition sum_dbl :: "dbl list \<Rightarrow> dbl" where
  "sum_dbl xs = foldl (+) (Num 0) xs"

text \<open>Modelled from the spec: the body of \<^verbatim>\<open>get_points_intersecting_vertical_cylinder\<close>
  (section 4.3): the candidates of the bounding box, refined by the horizontal distance
  test; both z-bounds are inclusive.\<close>

definition get_points_intersecting_vertical_cylinder ::
  "index_for_3d_points_t \<Rightarrow> point_2d_t \<Rightarrow> dbl \<Rightarrow> dbl \<Rightarrow> dbl \<Rightarrow> point_3d_t list" where
  "get_points_intersecting_vertical_cylinder point_cloud xy_center radius bottom_height top_height =
     filter (\<lambda>p. fst xy_center - radius \<le> get_x p \<and> get_x p \<le> fst xy_center + radius \<and>
                 snd xy_center - radius \<le> get_y p \<and> get_y p \<le> snd xy_center + radius \<and>
                 bottom_height \<le> get_z p \<and> get_z p \<le> top_height \<and>
                 within_xy_distance (make_within_xy_distance_functor xy_center radius) p)
            point_cloud"

text \<open>Modelled from the spec: the body of \<^verbatim>\<open>weighted_mean_of\<close> (section 4.4): the
  componentwise weighted mean, failing when the weights sum to zero.\<close>

definition weighted_mean_of :: "point_3d_t list \<Rightarrow> dbl list \<Rightarrow> error + point_3d_t" where
  "weighted_mean_of points weights =
     (let total = sum_dbl weights in
      if total = Num 0 then Inl DegenerateSum
      else Inr (sum_dbl (map2 (\<lambda>w p. w * get_x p) weights points) / total,
                sum_dbl (map2 (\<lambda>w p. w * get_y p) weights points) / total,
                sum_dbl (map2 (\<lambda>w p. w * get_z p) weights points) / total))"

text \<open>The members of \<^verbatim>\<open>_Kernel\<close>, as ams3d.h declares them.\<close>

record Kernel =
  xy_center :: point_2d_t
  center_height_initial :: dbl
  radius :: dbl
  height :: dbl
  half_height :: dbl
  half_height_squared :: dbl
  radius_squared :: dbl
  top_height :: dbl
  center_height :: dbl
  bottom_height :: dbl

text \<open>Modelled from the spec: the constructor of \<^verbatim>\<open>_Kernel\<close> with a ground height
  (section 4.5). The full height is \<open>h_ag \<cdot> h_ratio\<close>, the radius \<open>(h_ag \<cdot> d_ratio) / 2\<close>, the
  bottom lies a quarter of the height below the point but not below the ground, the top lies
  the full height above the bottom and the center half the height above it.\<close>

definition make_Kernel :: "point_3d_t \<Rightarrow> dbl \<Rightarrow> dbl \<Rightarrow> dbl \<Rightarrow> Kernel" where
  "make_Kernel center ground_height_at_center crown_diameter_to_tree_height
       crown_height_to_tree_height =
     (let h_ag = get_z center - ground_height_at_center;
          H = h_ag * crown_height_to_tree_height;
          r = h_ag * crown_diameter_to_tree_height / Num 2;
          bottom = bottom_height_above_ground_with h_ag crown_height_to_tree_height
                     + ground_height_at_center
      in \<lparr>xy_center = get_xy_point center,
          center_height_initial = get_z center,
          radius = r,
          height = H,
          half_height = H / Num 2,
          half_height_squared = (H / Num 2) * (H / Num 2),
          radius_squared = r * r,
          top_height = bottom + H,
          center_height = bottom + H / Num 2,
          bottom_height = bottom\<rparr>)"

text \<open>Modelled from the spec: the squared relative horizontal distance
  \<open>((p\<^sub>x - c\<^sub>x)\<^sup>2 + (p\<^sub>y - c\<^sub>y)\<^sup>2) / r\<^sup>2\<close> of section 4.5.\<close>

definition calculate_squared_relative_horizontal_distance_of_center_to ::
  "Kernel \<Rightarrow> point_3d_t \<Rightarrow> dbl" where
  "calculate_squared_relative_horizontal_distance_of_center_to k point =
     comparable_distance (get_xy_point point) (xy_center k) / radius_squared k"

text \<open>Modelled from the spec: the squared relative vertical distance
  \<open>(p\<^sub>z - center_z)\<^sup>2 / (H / 2)\<^sup>2\<close> of section 4.5.\<close>

definition calculate_squared_relative_vertical_distance_of_center_to ::
  "Kernel \<Rightarrow> point_3d_t \<Rightarrow> dbl" where
  "calculate_squared_relative_vertical_distance_of_center_to k point =
     (get_z point - center_height k) * (get_z point - center_height k) / half_height_squared k"

text \<open>Modelled from the spec: the weight of a point in the kernel (section 4.5), the product
  of the horizontal and the vertical profile at the squared relative distances.\<close>

definition calculate_point_weight_of :: "Kernel \<Rightarrow> point_3d_t \<Rightarrow> dbl" where
  "calculate_point_weight_of k point =
     epanechnikov_unsquared (calculate_squared_relative_horizontal_distance_of_center_to k point) *
     gauss_unsquared (calculate_squared_relative_vertical_distance_of_center_to k point)"

text \<open>Modelled from the spec: \<^verbatim>\<open>calculate_centroid_in\<close> (section 4.5). \<open>None\<close> is the
  undefined centroid of a kernel without points or with a zero weight sum; the weighted mean
  is only called otherwise.\<close>

definition calculate_centroid_in ::
  "Kernel \<Rightarrow> index_for_3d_points_t \<Rightarrow> error + point_3d_t option" where
  "calculate_centroid_in k point_cloud =
     (let points = get_points_intersecting_vertical_cylinder point_cloud
                     (xy_center k) (radius k) (bottom_height k) (top_height k);
          weights = map (calculate_point_weight_of k) points
      in if points = [] \<or> sum_dbl weights = Num 0 then Inr None
         else map_sum id Some (weighted_mean_of points weights))"

text \<open>Modelled from the spec: the Euclidean distance of two centers (section 4.6, step 4),
  Boost.Geometry's \<^verbatim>\<open>distance\<close> that spatial\_util.h forwards.\<close>

definition euclidean_distance :: "point_3d_t \<Rightarrow> point_3d_t \<Rightarrow> dbl" where
  "euclidean_distance p q =
     dbl_sqrt ((get_x p - get_x q) * (get_x p - get_x q) +
               (get_y p - get_y q) * (get_y p - get_y q) +
               (get_z p - get_z q) * (get_z p - get_z q))"

text \<open>Modelled from the spec: one pass through steps 1 to 5 of the iteration (section 4.6)
  with the current center \<open>s\<close>, the number \<open>i\<close> of centroids found so far and their trace.
  \<open>Inl\<close> ends the iteration with its outcome, \<open>Inr\<close> continues with the new center.\<close>

definition mean_shift_step ::
  "index_for_3d_points_t \<Rightarrow> dbl \<Rightarrow> dbl \<Rightarrow> dbl \<Rightarrow> int \<Rightarrow> nat \<Rightarrow> point_3d_t \<Rightarrow> point_3d_t list \<Rightarrow>
     (error + point_3d_t \<times> point_3d_t list) + (point_3d_t \<times> point_3d_t list)" where
  "mean_shift_step indexed_point_cloud crown_diameter_to_tree_height crown_height_to_tree_height
       centroid_convergence_distance max_num_centroids_per_mode i s trace =
     (case calculate_centroid_in
             (make_Kernel s (Num 0) crown_diameter_to_tree_height crown_height_to_tree_height)
             indexed_point_cloud of
        Inl e \<Rightarrow> Inl (Inl e)
      | Inr None \<Rightarrow> Inl (Inr (if i = 0 then nan_point else s, trace))
      | Inr (Some s') \<Rightarrow>
          if euclidean_distance s' s \<le> centroid_convergence_distance
            then Inl (Inr (s', trace @ [s']))
          else if int (i + 1) = max_num_centroids_per_mode
            then Inl (Inr (s', trace @ [s']))
          else Inr (s', trace @ [s']))"

text \<open>Modelled from the spec: the iteration of section 4.6. The specification ends it on
  convergence, on a degenerate step or when the number of centroids equals the cap; where
  none of these happens the loop does not return, which is the value \<open>None\<close>.\<close>

partial_function (option) mean_shift_loop ::
  "index_for_3d_points_t \<Rightarrow> dbl \<Rightarrow> dbl \<Rightarrow> dbl \<Rightarrow> int \<Rightarrow> nat \<Rightarrow> point_3d_t \<Rightarrow> point_3d_t list \<Rightarrow>
     (error + point_3d_t \<times> point_3d_t list) option" where
  "mean_shift_loop indexed_point_cloud crown_diameter_to_tree_height crown_height_to_tree_height
       centroid_convergence_distance max_num_centroids_per_mode i s trace =
     (case mean_shift_step indexed_point_cloud crown_diameter_to_tree_height
             crown_height_to_tree_height centroid_convergence_distance
             max_num_centroids_per_mode i s trace of
        Inl outcome \<Rightarrow> Some outcome
      | Inr next_state \<Rightarrow>
          mean_shift_loop indexed_point_cloud crown_diameter_to_tree_height
            crown_height_to_tree_height centroid_convergence_distance
            max_num_centroids_per_mode (Suc i) (fst next_state) (snd next_state))"

text \<open>Modelled from the spec: \<^verbatim>\<open>calculate_a_single_mode_plus_centroids\<close> for normalized
  heights (section 4.6): the two rejections, then the iteration from the point itself.\<close>

definition calculate_a_single_mode_plus_centroids ::
  "point_3d_t \<Rightarrow> index_for_3d_points_t \<Rightarrow> dbl \<Rightarrow> dbl \<Rightarrow> dbl \<Rightarrow> dbl \<Rightarrow> int \<Rightarrow>
     (error + point_3d_t \<times> point_3d_t list) option" where
  "calculate_a_single_mode_plus_centroids point indexed_point_cloud min_point_height_above_ground
       crown_diameter_to_tree_height crown_height_to_tree_height
       centroid_convergence_distance max_num_centroids_per_mode =
     (if has_non_finite_coordinate_value point then Some (Inr (nan_point, []))
      else if get_z point < min_point_height_above_ground then Some (Inr (nan_point, []))
      else mean_shift_loop indexed_point_cloud crown_diameter_to_tree_height
             crown_height_to_tree_height centroid_convergence_distance
             max_num_centroids_per_mode 0 point [])"

text \<open>Modelled from the spec: \<^verbatim>\<open>calculate_a_single_mode\<close> for normalized heights, the
  same computation without the trace.\<close>

definition calculate_a_single_mode ::
  "point_3d_t \<Rightarrow> index_for_3d_points_t \<Rightarrow> dbl \<Rightarrow> dbl \<Rightarrow> dbl \<Rightarrow> dbl \<Rightarrow> int \<Rightarrow>
     (error + point_3d_t) option" where
  "calculate_a_single_mode point indexed_point_cloud min_point_height_above_ground
       crown_diameter_to_tree_height crown_height_to_tree_height
       centroid_convergence_distance max_num_centroids_per_mode =
     map_option (map_sum id fst)
       (calculate_a_single_mode_plus_centroids point indexed_point_cloud
          min_point_height_above_ground crown_diameter_to_tree_height
          crown_height_to_tree_height centroid_convergence_distance max_num_centroids_per_mode)"

section \<open>The index formulas of the specification\<close>

text \<open>
  The row and column index as the specification words them, in real arithmetic, for a
  raster over \<open>[y0, y1]\<close> with \<open>n\<close> rows and over \<open>[x0, x1]\<close> with \<open>n\<close> columns:
  the floor of the distance to the upper (left) edge in units of the row height (column
  width), decremented by one exactly when it equals the number of rows (columns).
\<close>

definition clamped_index :: "int \<Rightarrow> real \<Rightarrow> int" where
  "clamped_index n q = (let k = \<lfloor>q\<rfloor> in if k = n then k - 1 else k)"

definition spec_row_index :: "real \<Rightarrow> real \<Rightarrow> nat \<Rightarrow> real \<Rightarrow> int" where
  "spec_row_index y0 y1 n y = clamped_index (int n) ((y1 - y) / ((y1 - y0) / real n))"

definition spec_col_index :: "real \<Rightarrow> real \<Rightarrow> nat \<Rightarrow> real \<Rightarrow> int" where
  "spec_col_index x0 x1 n x = clamped_index (int n) ((x - x0) / ((x1 - x0) / real n))"

section \<open>Kernel helpers and profile functions: results\<close>

text \<open>
  C3: for a finite above-ground height \<open>h\<close> and a finite ratio \<open>r\<close>,
  \<^verbatim>\<open>_Kernel::bottom_height_above_ground_with(h, r)\<close> is \<open>max(0, h - (h \<cdot> r) / 4)\<close>: the
  height minus a quarter of the kernel height \<open>h \<cdot> r\<close>, not below the ground level 0.
\<close>

theorem bottom_height_above_ground_with_max:
  "bottom_height_above_ground_with (Num h) (Num r) = Num (max 0 (h - (h * r) / 4))"
  by (simp add: bottom_height_above_ground_with_def Let_def max_def)

theorem bottom_height_above_ground_with_max_witness:
  "bottom_height_above_ground_with (Num 10) (Num 0.5) = Num 8.75 \<and>
   bottom_height_above_ground_with (Num (- 2)) (Num 0.5) = Num 0"
  using bottom_height_above_ground_with_max [of 10 "0.5"]
        bottom_height_above_ground_with_max [of "- 2" "0.5"]
  by simp

text \<open>
  C4: for every real \<open>x\<close>, \<^verbatim>\<open>gauss_unsquared(x)\<close> is \<open>exp(-5 \<cdot> x)\<close>, the coefficient
  \<^verbatim>\<open>gaussian_gamma\<close> being \<open>-5\<close>, and \<^verbatim>\<open>epanechnikov_unsquared(x)\<close> is \<open>1 - x\<close>; so the
  two weight factors at the squared relative distances \<open>s_h\<close> and \<open>s_v\<close> are \<open>1 - s_h\<close>
  and \<open>exp(-5 \<cdot> s_v)\<close>.
\<close>

theorem profile_functions:
  "gaussian_gamma = Num (- 5) \<and>
   gauss_unsquared (Num x) = Num (exp (- 5 * x)) \<and>
   epanechnikov_unsquared (Num x) = Num (1 - x) \<and>
   epanechnikov_unsquared (Num s_h) * gauss_unsquared (Num s_v) = Num ((1 - s_h) * exp (- 5 * s_v))"
  by (simp add: gauss_unsquared_def gaussian_gamma_def epanechnikov_unsquared_def)

theorem profile_functions_witness:
  "gauss_unsquared (Num 0) = Num 1 \<and> epanechnikov_unsquared (Num 0.25) = Num 0.75"
  using profile_functions [of 0 0 0] profile_functions [of "0.25" 0 0]
  by simp

text \<open>
  C9: for every above-ground height \<open>h\<close> and every ratio grid \<open>g\<close>,
  \<^verbatim>\<open>_Kernel::bottom_height_above_ground_grid_with(h, g)\<close> returns a raster, without the
  shape-mismatch failure of \<^verbatim>\<open>copy_w_new_values\<close>, with as many values as \<open>g\<close>, and its
  \<open>i\<close>-th value is \<^verbatim>\<open>bottom_height_above_ground_with(h, g.values()[i])\<close>.
\<close>

theorem bottom_height_above_ground_grid_with_map:
  "\<exists>g'. bottom_height_above_ground_grid_with h g = Inr g' \<and>
        length (I_values g') = length (I_values g) \<and>
        I_values g' = map (bottom_height_above_ground_with h) (I_values g) \<and>
        (\<forall>i < length (I_values g).
           I_values g' ! i = bottom_height_above_ground_with h (I_values g ! i))"
proof (cases g)
  case (Single s)
  then show ?thesis
    by (cases s)
       (simp add: bottom_height_above_ground_grid_with_def bottom_height_above_ground_with_def
                  Let_def)
next
  case (Grid r)
  then show ?thesis
    by (simp add: bottom_height_above_ground_grid_with_def bottom_height_above_ground_with_def
                  Let_def copy_w_new_values_def)
qed

theorem bottom_height_above_ground_grid_with_map_witness:
  "\<exists>g'. bottom_height_above_ground_grid_with (Num 10)
           (Grid \<lparr>values_r = [Num 0.5, Num 8], num_rows = 1, num_cols = 2,
                  x_min = Num 0, x_max = Num 2, y_min = Num 0, y_max = Num 1\<rparr>) = Inr g' \<and>
        I_values g' = [Num 8.75, Num 0] \<and>
        I_values g' ! 1 = bottom_height_above_ground_with (Num 10) (Num 8)"
  using bottom_height_above_ground_grid_with_map [of "Num 10"
          "Grid \<lparr>values_r = [Num 0.5, Num 8], num_rows = 1, num_cols = 2,
                 x_min = Num 0, x_max = Num 2, y_min = Num 0, y_max = Num 1\<rparr>"]
  by (auto simp add: bottom_height_above_ground_with_def Let_def)

section \<open>Horizontal distance test: results\<close>

text \<open>
  C7: for every center \<open>(cx, cy)\<close>, every radius \<open>\<rho>\<close> and every point \<open>p\<close> with finite
  \<open>x\<close> and \<open>y\<close>, \<^verbatim>\<open>_within_xy_distance_functor(center, \<rho>)\<close> accepts \<open>p\<close> iff
  \<open>(p.x - cx)\<^sup>2 + (p.y - cy)\<^sup>2 \<le> \<rho>\<^sup>2\<close>; the stored comparable distance, the squared
  distance from \<open>(0, 0)\<close> to \<open>(0, \<rho>)\<close>, is \<open>\<rho>\<^sup>2\<close>. The sign of \<open>\<rho>\<close> plays no role.
  For any point and center, finite or not, the test compares the squared horizontal
  distance with \<open>\<rho>\<^sup>2\<close>.
\<close>

theorem within_xy_distance_iff:
  "wxy_comparable_distance (make_within_xy_distance_functor c (Num \<rho>)) = Num (\<rho>\<^sup>2) \<and>
   within_xy_distance (make_within_xy_distance_functor (Num cx, Num cy) (Num \<rho>))
       (Num px, Num py, pz)
     = ((px - cx)\<^sup>2 + (py - cy)\<^sup>2 \<le> \<rho>\<^sup>2) \<and>
   within_xy_distance (make_within_xy_distance_functor c (Num \<rho>)) p
     = (comparable_distance (get_x p, get_y p) c \<le> Num (\<rho>\<^sup>2))"
  by (simp add: make_within_xy_distance_functor_def within_xy_distance_def get_xy_point_def
                power2_eq_square)

theorem within_xy_distance_iff_witness:
  "within_xy_distance (make_within_xy_distance_functor (Num 0, Num 0) (Num 5))
       (Num 3, Num 4, NaN) \<and>
   \<not> within_xy_distance (make_within_xy_distance_functor (Num 0, Num 0) (Num 5))
       (Num 4, Num 4, Num 1)"
  using within_xy_distance_iff [of "(Num 0, Num 0)" 5 0 0 3 4 NaN "(Num 3, Num 4, NaN)"]
        within_xy_distance_iff [of "(Num 0, Num 0)" 5 0 0 4 4 "Num 1" "(Num 4, Num 4, Num 1)"]
  by simp

section \<open>Mean-shift driver: results\<close>

text \<open>
  C1: for every candidate point \<open>c\<close> with a non-finite coordinate, or whose above-ground
  height is below \<^verbatim>\<open>min_point_height_above_ground\<close>, \<^verbatim>\<open>calculate_a_single_mode\<close> returns
  the NaN-point without raising, and \<^verbatim>\<open>calculate_a_single_mode_plus_centroids\<close> returns the
  NaN-point paired with an empty centroid vector.
\<close>

theorem calculate_a_single_mode_rejects:
  "has_non_finite_coordinate_value c \<or> get_z c < min_point_height_above_ground \<Longrightarrow>
   calculate_a_single_mode c indexed_point_cloud min_point_height_above_ground
       crown_diameter_to_tree_height crown_height_to_tree_height
       centroid_convergence_distance max_num_centroids_per_mode
     = Some (Inr nan_point) \<and>
   calculate_a_single_mode_plus_centroids c indexed_point_cloud min_point_height_above_ground
       crown_diameter_to_tree_height crown_height_to_tree_height
       centroid_convergence_distance max_num_centroids_per_mode
     = Some (Inr (nan_point, []))"
  by (auto simp add: calculate_a_single_mode_def calculate_a_single_mode_plus_centroids_def)

theorem calculate_a_single_mode_rejects_witness:
  "has_non_finite_coordinate_value (NaN, Num 0, Num 10) \<and>
   calculate_a_single_mode (NaN, Num 0, Num 10) [] (Num 1) (Num 0.2) (Num 0.5) (Num 0.01) 50
     = Some (Inr nan_point) \<and>
   get_z (Num 0, Num 0, Num 0.5) < Num 1 \<and>
   calculate_a_single_mode_plus_centroids (Num 0, Num 0, Num 0.5) [(Num 0, Num 0, Num 5)]
       (Num 1) (Num 0.2) (Num 0.5) (Num 0.01) 50
     = Some (Inr (nan_point, []))"
  using calculate_a_single_mode_rejects [of "(NaN, Num 0, Num 10)" "Num 1" "[]"
          "Num 0.2" "Num 0.5" "Num 0.01" 50]
        calculate_a_single_mode_rejects [of "(Num 0, Num 0, Num 0.5)" "Num 1"
          "[(Num 0, Num 0, Num 5)]" "Num 0.2" "Num 0.5" "Num 0.01" 50]
  by (simp add: has_non_finite_coordinate_value_def)

section \<open>Rasters: results\<close>

subsection \<open>Evaluating the rounding\<close>

lemma binary64_exponent_eq:
  assumes "2 powi e \<le> a" and "a < 2 powi (e + 1)"
  shows "binary64_exponent a = max (- 1022) e"
proof -
  have "(0::real) < 2 powi e" by (rule zero_less_power_int) simp
  with assms(1) have pos: "0 < a" by linarith
  have a: "2 powr (real_of_int e) = (2::real) powi e"
    by (rule powr_real_of_int') simp_all
  have "2 powr (real_of_int (e + 1)) = (2::real) powi (e + 1)"
    by (rule powr_real_of_int') simp_all
  then have b: "2 powr (real_of_int e + 1) = (2::real) powi (e + 1)"
    by simp
  have "2 powr (real_of_int e) \<le> a" "a < 2 powr (real_of_int e + 1)"
    unfolding a b using assms by simp_all
  then have "\<lfloor>log 2 a\<rfloor> = e"
    using floor_log_eq_powr_iff [of a 2 e] pos by simp
  then show ?thesis by (simp add: binary64_exponent_def)
qed

lemma fl_eval:
  assumes "x \<noteq> 0" and "2 powi e \<le> \<bar>x\<bar>" and "\<bar>x\<bar> < 2 powi (e + 1)"
  shows "fl x =
     (let ulp = 2 powi (max (- 1022) e - 52);
          m = of_int (round_half_even (\<bar>x\<bar> / ulp)) * ulp
      in if 2 ^ 1024 \<le> m then inf_of_sign (0 < x) else Num (sgn x * m))"
  using assms(1) by (simp add: fl_def binary64_exponent_eq [OF assms(2,3)])

lemma fl_0 [simp]: "fl 0 = Num 0"
  by (simp add: fl_def)

lemma fl_half [simp]: "fl (1 / 2) = Num (1 / 2)"
  using fl_eval [of "1 / 2" "- 1"] by (simp add: round_half_even_def Let_def power_int_minus)

lemma fl_1 [simp]: "fl 1 = Num 1"
  using fl_eval [of 1 0] by (simp add: round_half_even_def Let_def power_int_minus)

lemma fl_3_halves [simp]: "fl (3 / 2) = Num (3 / 2)"
  using fl_eval [of "3 / 2" 0] by (simp add: round_half_even_def Let_def power_int_minus)

lemma fl_2 [simp]: "fl 2 = Num 2"
  using fl_eval [of 2 1] by (simp add: round_half_even_def Let_def power_int_minus)

lemma fl_3 [simp]: "fl 3 = Num 3"
  using fl_eval [of 3 1] by (simp add: round_half_even_def Let_def power_int_minus)

lemma fl_4 [simp]: "fl 4 = Num 4"
  using fl_eval [of 4 2] by (simp add: round_half_even_def Let_def power_int_minus)

text \<open>One third is not a double: the nearest one lies below it.\<close>

lemma fl_third: "fl (1 / 3) = Num (6004799503160661 / 2 ^ 54)"
  using fl_eval [of "1 / 3" "- 2"] by (simp add: round_half_even_def Let_def power_int_minus)

lemma fl_two_thirds_below: "fl (6004799503160661 / 2 ^ 53) = Num (6004799503160661 / 2 ^ 53)"
  using fl_eval [of "6004799503160661 / 2 ^ 53" "- 1"]
  by (simp add: round_half_even_def Let_def power_int_minus)

lemma fl_overflow: "fl (2 ^ 1024) = PosInf"
  using fl_eval [of "2 ^ 1024" 1024] by (simp add: round_half_even_def Let_def power_int_minus)

lemma fl_subnormal_4: "fl (4 / 2 ^ 1074) = Num (4 / 2 ^ 1074)"
  using fl_eval [of "4 / 2 ^ 1074" "- 1072"]
  by (simp add: round_half_even_def Let_def power_int_minus)

lemma fl_subnormal_4_thirds: "fl (4 / 2 ^ 1074 / 3) = Num (1 / 2 ^ 1074)"
  using fl_eval [of "4 / 2 ^ 1074 / 3" "- 1074"]
  by (simp add: round_half_even_def Let_def power_int_minus)

lemma fl_near_1: "fl (1 - 1 / 2 ^ 60) = Num 1"
  using fl_eval [of "1 - 1 / 2 ^ 60" "- 1"]
  by (simp add: round_half_even_def Let_def power_int_minus)

lemma fl_recip_third: "fl (2 ^ 54 / 6004799503160661) = Num 3"
  using fl_eval [of "2 ^ 54 / 6004799503160661" 1]
  by (simp add: round_half_even_def Let_def power_int_minus)

subsection \<open>Lookups and copies\<close>

lemma no_throw_value_at_xy_of_error:
  "no_throw_value_at_xy_of r p = Inl e \<Longrightarrow> e = UndefinedBehaviour"
  unfolding no_throw_value_at_xy_of_def flat_index_at_xy_of_def vec_at_def Let_def
  by (cases "fdiv (fsub (y_max r) (get_y p)) (row_height r)";
      cases "fdiv (fsub (get_x p) (x_min r)) (col_width r)")
     (auto split: sum.splits if_splits)

lemma has_value_at_xy_of_not_nan:
  "has_value_at_xy_of r p \<Longrightarrow> \<not> isnan (get_x p) \<and> \<not> isnan (get_y p)"
  by (cases "get_x p"; cases "get_y p") (auto simp add: has_value_at_xy_of_def)

text \<open>
  C5: for every grid raster and every point \<open>p\<close>, \<^verbatim>\<open>has_value_at_xy_of(p)\<close> is true iff
  \<open>(p.x, p.y)\<close> lies in the closed rectangle \<open>[x_min, x_max] \<times> [y_min, y_max]\<close> (never for a
  NaN coordinate); \<^verbatim>\<open>value_at_xy_of(p)\<close> raises the invalid-coordinate failure iff
  \<open>p.x\<close> or \<open>p.y\<close> is NaN, raises the out-of-extent failure iff neither is NaN and the
  point lies outside the rectangle, and otherwise returns what
  \<^verbatim>\<open>no_throw_value_at_xy_of(p)\<close> returns.
\<close>

theorem value_at_xy_of_contract:
  "has_value_at_xy_of r p
     = (x_min r \<le> get_x p \<and> get_x p \<le> x_max r \<and> y_min r \<le> get_y p \<and> get_y p \<le> y_max r) \<and>
   has_value_at_xy_of
       (r\<lparr>x_min := Num x0, x_max := Num x1, y_min := Num y0, y_max := Num y1\<rparr>) (Num x, Num y, z)
     = (x \<in> {x0..x1} \<and> y \<in> {y0..y1}) \<and>
   (isnan (get_x p) \<or> isnan (get_y p) \<longrightarrow> \<not> has_value_at_xy_of r p) \<and>
   (value_at_xy_of r p = Inl InvalidCoordinate) = (isnan (get_x p) \<or> isnan (get_y p)) \<and>
   (value_at_xy_of r p = Inl OutOfExtent)
     = (\<not> isnan (get_x p) \<and> \<not> isnan (get_y p) \<and> \<not> has_value_at_xy_of r p) \<and>
   (\<not> isnan (get_x p) \<and> \<not> isnan (get_y p) \<and> has_value_at_xy_of r p \<longrightarrow>
      value_at_xy_of r p = no_throw_value_at_xy_of r p)"
proof (intro conjI)
  show "has_value_at_xy_of r p
     = (x_min r \<le> get_x p \<and> get_x p \<le> x_max r \<and> y_min r \<le> get_y p \<and> get_y p \<le> y_max r)"
    by (simp add: has_value_at_xy_of_def)
  show "has_value_at_xy_of
       (r\<lparr>x_min := Num x0, x_max := Num x1, y_min := Num y0, y_max := Num y1\<rparr>) (Num x, Num y, z)
     = (x \<in> {x0..x1} \<and> y \<in> {y0..y1})"
    by (auto simp add: has_value_at_xy_of_def)
  show "isnan (get_x p) \<or> isnan (get_y p) \<longrightarrow> \<not> has_value_at_xy_of r p"
    using has_value_at_xy_of_not_nan [of r p] by blast
  show "(value_at_xy_of r p = Inl InvalidCoordinate) = (isnan (get_x p) \<or> isnan (get_y p))"
    using no_throw_value_at_xy_of_error [of r p InvalidCoordinate]
    by (auto simp add: value_at_xy_of_def)
  show "(value_at_xy_of r p = Inl OutOfExtent)
     = (\<not> isnan (get_x p) \<and> \<not> isnan (get_y p) \<and> \<not> has_value_at_xy_of r p)"
    using no_throw_value_at_xy_of_error [of r p OutOfExtent]
    by (auto simp add: value_at_xy_of_def)
  show "\<not> isnan (get_x p) \<and> \<not> isnan (get_y p) \<and> has_value_at_xy_of r p \<longrightarrow>
      value_at_xy_of r p = no_throw_value_at_xy_of r p"
    by (simp add: value_at_xy_of_def)
qed

theorem value_at_xy_of_contract_witness:
  "value_at_xy_of
      \<lparr>values_r = [Num 1, Num 2, Num 3, Num 4, Num 5, Num 6], num_rows = 2, num_cols = 3,
        x_min = Num 0, x_max = Num 3, y_min = Num 0, y_max = Num 2\<rparr> (NaN, Num 1, Num 0) = Inl InvalidCoordinate \<and>
   value_at_xy_of
      \<lparr>values_r = [Num 1, Num 2, Num 3, Num 4, Num 5, Num 6], num_rows = 2, num_cols = 3,
        x_min = Num 0, x_max = Num 3, y_min = Num 0, y_max = Num 2\<rparr> (Num 4, Num 1, Num 0) = Inl OutOfExtent \<and>
   has_value_at_xy_of
      \<lparr>values_r = [Num 1, Num 2, Num 3, Num 4, Num 5, Num 6], num_rows = 2, num_cols = 3,
        x_min = Num 0, x_max = Num 3, y_min = Num 0, y_max = Num 2\<rparr> (Num 3, Num 0, Num 0) \<and>
   value_at_xy_of
      \<lparr>values_r = [Num 1, Num 2, Num 3, Num 4, Num 5, Num 6], num_rows = 2, num_cols = 3,
        x_min = Num 0, x_max = Num 3, y_min = Num 0, y_max = Num 2\<rparr> (Num 3, Num 0, Num 0) = Inr (Num 6)"
  using value_at_xy_of_contract [where p = "(NaN, Num 1, Num 0)" and r = "\<lparr>values_r = [Num 1, Num 2, Num 3, Num 4, Num 5, Num 6], num_rows = 2, num_cols = 3,
        x_min = Num 0, x_max = Num 3, y_min = Num 0, y_max = Num 2\<rparr>"]
        value_at_xy_of_contract [where p = "(Num 4, Num 1, Num 0)" and r = "\<lparr>values_r = [Num 1, Num 2, Num 3, Num 4, Num 5, Num 6], num_rows = 2, num_cols = 3,
        x_min = Num 0, x_max = Num 3, y_min = Num 0, y_max = Num 2\<rparr>"]
        value_at_xy_of_contract [where p = "(Num 3, Num 0, Num 0)" and r = "\<lparr>values_r = [Num 1, Num 2, Num 3, Num 4, Num 5, Num 6], num_rows = 2, num_cols = 3,
        x_min = Num 0, x_max = Num 3, y_min = Num 0, y_max = Num 2\<rparr>"]
  by (simp add: has_value_at_xy_of_def no_throw_value_at_xy_of_def flat_index_at_xy_of_def
                row_height_def col_width_def of_size_t_def fsub_def fdiv_def trunc_def
                vec_at_def)

text \<open>
  C8: for every grid raster \<open>r\<close> and value vector \<open>v\<close>, \<^verbatim>\<open>r.copy_w_new_values(v)\<close> raises
  exactly when \<open>v\<close> has not the size of \<open>r\<close>'s values, and otherwise returns a raster
  with the rows, columns and bounds of \<open>r\<close> (hence its row height and column width)
  carrying \<open>v\<close>; for every single-value raster, \<^verbatim>\<open>copy_w_new_values(v)\<close> raises exactly
  when the size of \<open>v\<close> is not 1 and otherwise returns a single-value raster holding
  \<open>v[0]\<close>.
\<close>

theorem copy_w_new_values_contract:
  "(isl (copy_w_new_values r v) \<longleftrightarrow> length v \<noteq> length (values_r r)) \<and>
   (length v \<noteq> length (values_r r) \<longrightarrow> copy_w_new_values r v = Inl ShapeMismatch) \<and>
   (length v = length (values_r r) \<longrightarrow>
      (\<exists>r'. copy_w_new_values r v = Inr r' \<and> values_r r' = v \<and>
            num_rows r' = num_rows r \<and> num_cols r' = num_cols r \<and>
            x_min r' = x_min r \<and> x_max r' = x_max r \<and>
            y_min r' = y_min r \<and> y_max r' = y_max r \<and>
            row_height r' = row_height r \<and> col_width r' = col_width r)) \<and>
   (isl (sv_copy_w_new_values s w) \<longleftrightarrow> length w \<noteq> 1) \<and>
   (length w \<noteq> 1 \<longrightarrow> sv_copy_w_new_values s w = Inl ShapeMismatch) \<and>
   (length w = 1 \<longrightarrow>
      sv_copy_w_new_values s w = Inr (Single_value_pseudo_raster (w ! 0)) \<and>
      sv_values (Single_value_pseudo_raster (w ! 0)) = w)"
proof -
  have "length w = 1 \<Longrightarrow> [w ! 0] = w"
    by (cases w) simp_all
  then show ?thesis
    by (simp add: copy_w_new_values_def row_height_def col_width_def)
qed


theorem copy_w_new_values_contract_witness:
  "copy_w_new_values
      \<lparr>values_r = [Num 1, Num 2, Num 3, Num 4, Num 5, Num 6], num_rows = 2, num_cols = 3,
        x_min = Num 0, x_max = Num 3, y_min = Num 0, y_max = Num 2\<rparr> [Num 7] = Inl ShapeMismatch \<and>
   (\<exists>r'. copy_w_new_values
      \<lparr>values_r = [Num 1, Num 2, Num 3, Num 4, Num 5, Num 6], num_rows = 2, num_cols = 3,
        x_min = Num 0, x_max = Num 3, y_min = Num 0, y_max = Num 2\<rparr> [Num 6, Num 5, Num 4, Num 3, Num 2, Num 1] = Inr r' \<and> num_cols r' = 3) \<and>
   sv_copy_w_new_values (Single_value_pseudo_raster (Num 1)) [Num 2, Num 3] = Inl ShapeMismatch \<and>
   sv_copy_w_new_values (Single_value_pseudo_raster (Num 1)) [Num 2]
     = Inr (Single_value_pseudo_raster (Num 2))"
  using copy_w_new_values_contract [where v = "[Num 7]" and r = "\<lparr>values_r = [Num 1, Num 2, Num 3, Num 4, Num 5, Num 6], num_rows = 2, num_cols = 3,
        x_min = Num 0, x_max = Num 3, y_min = Num 0, y_max = Num 2\<rparr>"
          and s = "Single_value_pseudo_raster (Num 1)" and w = "[Num 2, Num 3]"]
        copy_w_new_values_contract [where v = "[Num 6, Num 5, Num 4, Num 3, Num 2, Num 1]"
          and r = "\<lparr>values_r = [Num 1, Num 2, Num 3, Num 4, Num 5, Num 6], num_rows = 2, num_cols = 3,
        x_min = Num 0, x_max = Num 3, y_min = Num 0, y_max = Num 2\<rparr>"
          and s = "Single_value_pseudo_raster (Num 1)" and w = "[Num 2]"]
  by auto

subsection \<open>The computed quotients inside the extent\<close>

lemma round_half_even_nonneg: "0 \<le> t \<Longrightarrow> 0 \<le> round_half_even t"
  by (simp add: round_half_even_def Let_def)

lemma fl_nonneg:
  assumes "0 \<le> x"
  shows "fl x \<noteq> NegInf \<and> (\<forall>a. fl x = Num a \<longrightarrow> 0 \<le> a)"
proof (cases "x = 0")
  case True
  then show ?thesis by (simp add: fl_def)
next
  case False
  with assms have pos: "0 < x" by simp
  let ?ulp = "(2::real) powi (binary64_exponent \<bar>x\<bar> - 52)"
  have u: "0 < ?ulp" by (rule zero_less_power_int) simp
  with pos have "0 \<le> \<bar>x\<bar> / ?ulp" by simp
  then have "0 \<le> round_half_even (\<bar>x\<bar> / ?ulp)" by (rule round_half_even_nonneg)
  with u have "0 \<le> of_int (round_half_even (\<bar>x\<bar> / ?ulp)) * ?ulp" by simp
  with pos show ?thesis by (simp add: fl_def Let_def)
qed

lemma fsub_nonneg:
  "b \<le> a \<Longrightarrow> fsub a b \<noteq> NegInf \<and> (\<forall>c. fsub a b = Num c \<longrightarrow> 0 \<le> c)"
proof (cases a; cases b)
  fix x y assume "a = Num x" "b = Num y" "b \<le> a"
  then show ?thesis using fl_nonneg [of "x - y"] by (simp add: fsub_def)
qed (simp_all add: fsub_def)

lemma fdiv_nonneg:
  assumes "a \<noteq> NegInf \<and> (\<forall>c. a = Num c \<longrightarrow> 0 \<le> c)"
    and "b \<noteq> NegInf \<and> (\<forall>c. b = Num c \<longrightarrow> 0 \<le> c)"
  shows "fdiv a b \<noteq> NegInf \<and> (\<forall>c. fdiv a b = Num c \<longrightarrow> 0 \<le> c)"
proof (cases a)
  case (Num x)
  with assms(1) have x: "0 \<le> x" by simp
  show ?thesis
  proof (cases b)
    case (Num y)
    with assms(2) have "0 \<le> y" by simp
    with x have "0 \<le> x / y" by simp
    from fl_nonneg [OF this] x \<open>a = Num x\<close> Num show ?thesis
      by (auto simp add: fdiv_def)
  qed (use Num in \<open>simp_all add: fdiv_def fl_def\<close>)
next
  case PosInf
  with assms(2) show ?thesis by (cases b) (simp_all add: fdiv_def)
next
  case NegInf
  with assms(1) show ?thesis by simp
next
  case NaN
  then show ?thesis by (simp add: fdiv_def)
qed

lemma of_size_t_nonneg:
  "of_size_t n \<noteq> NegInf \<and> (\<forall>c. of_size_t n = Num c \<longrightarrow> 0 \<le> c)"
proof -
  have "(0::real) \<le> real (unat n)" by (rule of_nat_0_le_iff)
  then show ?thesis unfolding of_size_t_def by (rule fl_nonneg)
qed

lemma dbl_less_eq_trans: "dbl_less_eq a b \<Longrightarrow> dbl_less_eq b c \<Longrightarrow> dbl_less_eq a c"
  by (cases a; cases b; cases c) simp_all

lemma quotients_nonneg:
  assumes "has_value_at_xy_of r p"
  shows "fdiv (fsub (y_max r) (get_y p)) (row_height r) = Num qr \<Longrightarrow> 0 \<le> qr"
    and "fdiv (fsub (get_x p) (x_min r)) (col_width r) = Num qc \<Longrightarrow> 0 \<le> qc"
proof -
  from assms have le: "x_min r \<le> get_x p" "get_x p \<le> x_max r" "y_min r \<le> get_y p"
      "get_y p \<le> y_max r"
    by (simp_all add: has_value_at_xy_of_def)
  from le have xy: "x_min r \<le> x_max r" "y_min r \<le> y_max r"
    using dbl_less_eq_trans by auto
  have rh: "row_height r \<noteq> NegInf \<and> (\<forall>c. row_height r = Num c \<longrightarrow> 0 \<le> c)"
    unfolding row_height_def
    by (rule fdiv_nonneg [OF fsub_nonneg [OF xy(2)] of_size_t_nonneg])
  have cw: "col_width r \<noteq> NegInf \<and> (\<forall>c. col_width r = Num c \<longrightarrow> 0 \<le> c)"
    unfolding col_width_def
    by (rule fdiv_nonneg [OF fsub_nonneg [OF xy(1)] of_size_t_nonneg])
  from fdiv_nonneg [OF fsub_nonneg [OF le(4)] rh]
  show "fdiv (fsub (y_max r) (get_y p)) (row_height r) = Num qr \<Longrightarrow> 0 \<le> qr" by simp
  from fdiv_nonneg [OF fsub_nonneg [OF le(1)] cw]
  show "fdiv (fsub (get_x p) (x_min r)) (col_width r) = Num qc \<Longrightarrow> 0 \<le> qc" by simp
qed

lemma decrement_word_of_int:
  assumes "0 \<le> q" and "q < 2 ^ 64"
  shows "to_size_t (Num q) = Inr (word_of_int \<lfloor>q\<rfloor>)"
    and "(if word_of_int \<lfloor>q\<rfloor> = (n :: size_t) then word_of_int \<lfloor>q\<rfloor> - 1 else word_of_int \<lfloor>q\<rfloor>)
           = (word_of_int (clamped_index (uint n) q) :: size_t)"
proof -
  have k0: "0 \<le> \<lfloor>q\<rfloor>" using assms(1) by simp
  have k1: "\<lfloor>q\<rfloor> < 2 ^ 64" using assms(2) by (simp add: floor_less_iff)
  from k0 k1 assms(1) show "to_size_t (Num q) = Inr (word_of_int \<lfloor>q\<rfloor>)"
    by (simp add: trunc_def)
  have "uint (word_of_int \<lfloor>q\<rfloor> :: size_t) = \<lfloor>q\<rfloor>"
    using k0 k1 by (simp add: uint_word_of_int)
  then have eq: "(word_of_int \<lfloor>q\<rfloor> = n) = (\<lfloor>q\<rfloor> = uint n)"
    by (metis word_of_int_uint)
  show "(if word_of_int \<lfloor>q\<rfloor> = n then word_of_int \<lfloor>q\<rfloor> - 1 else word_of_int \<lfloor>q\<rfloor>)
           = (word_of_int (clamped_index (uint n) q) :: size_t)"
    unfolding eq by (simp add: clamped_index_def Let_def)
qed

lemma flat_index_computed:
  assumes "has_value_at_xy_of r p"
    and qr: "fdiv (fsub (y_max r) (get_y p)) (row_height r) = Num qr"
    and qc: "fdiv (fsub (get_x p) (x_min r)) (col_width r) = Num qc"
    and "qr < 2 ^ 64" "qc < 2 ^ 64"
  shows "flat_index_at_xy_of r p =
           Inr (word_of_int (uint (num_cols r) * clamped_index (uint (num_rows r)) qr
                             + clamped_index (uint (num_cols r)) qc))"
proof -
  note nn = quotients_nonneg [OF assms(1)]
  note dr1 = decrement_word_of_int(1) [OF nn(1) [OF qr] assms(4)]
  note dr2 = decrement_word_of_int(2) [OF nn(1) [OF qr] assms(4), where n = "num_rows r"]
  note dc1 = decrement_word_of_int(1) [OF nn(2) [OF qc] assms(5)]
  note dc2 = decrement_word_of_int(2) [OF nn(2) [OF qc] assms(5), where n = "num_cols r"]
  show ?thesis
    unfolding flat_index_at_xy_of_def qr qc dr1 dc1 Let_def sum.case dr2 dc2
    by simp
qed


lemma unat_word_of_int_64: "unat (word_of_int k :: size_t) = nat (k mod 2 ^ 64)"
  by (simp add: unat_eq_nat_uint uint_word_of_int)

text \<open>
  C6, as the claim states it, fails on the double arithmetic of the code. In a raster over
  \<open>[0, 1]\<close> with three columns the stored column width is the double next below
  \<open>1/3\<close>; at \<open>x\<close> twice that double the computed quotient is \<open>2\<close>, and the lookup
  returns the value of cell 2, where the floor of the exact quotient designates cell 1. In
  a raster over \<open>[0, 1]\<close> with three rows, at \<open>y = 2 ^ -60\<close> the computed row quotient
  is \<open>3\<close>, the number of rows, so the row index is decremented although \<open>y\<close> is not
  \<open>y_min\<close>.
\<close>

theorem no_throw_value_at_xy_of_rounding_counterexample:
  "no_throw_value_at_xy_of
      \<lparr>values_r = [Num 1, Num 2, Num 3], num_rows = 1, num_cols = 3,
       x_min = Num 0, x_max = Num 1, y_min = Num 0, y_max = Num 1\<rparr>
      (Num (6004799503160661 / 2 ^ 53), Num (1 / 2), Num 0) = Inr (Num 3) \<and>
   vec_at [Num 1, Num 2, Num 3]
      (nat ((3 * spec_row_index 0 1 1 (1 / 2)
             + spec_col_index 0 1 3 (6004799503160661 / 2 ^ 53)) mod 2 ^ 64)) = Inr (Num 2) \<and>
   fdiv (fsub (Num 1) (Num (1 / 2 ^ 60)))
        (row_height \<lparr>values_r = [Num 1, Num 2, Num 3], num_rows = 3, num_cols = 1,
                      x_min = Num 0, x_max = Num 1, y_min = Num 0, y_max = Num 1\<rparr>) = Num 3 \<and>
   (1 / 2 ^ 60 :: real) \<noteq> 0"
proof -
  let ?R = "\<lparr>values_r = [Num 1, Num 2, Num (3::real)], num_rows = 1, num_cols = 3,
       x_min = Num 0, x_max = Num 1, y_min = Num 0, y_max = Num 1\<rparr>"
  let ?p = "(Num (6004799503160661 / 2 ^ 53), Num (1 / 2), Num 0)"
  have rh: "row_height ?R = Num 1"
    by (simp add: row_height_def fsub_def fdiv_def of_size_t_def)
  have cw: "col_width ?R = Num (6004799503160661 / 2 ^ 54)"
    using fl_third by (simp add: col_width_def fsub_def fdiv_def of_size_t_def)
  have qr: "fdiv (fsub (y_max ?R) (get_y ?p)) (row_height ?R) = Num (1 / 2)"
    unfolding rh by (simp add: fsub_def fdiv_def)
  have qc: "fdiv (fsub (get_x ?p) (x_min ?R)) (col_width ?R) = Num 2"
    unfolding cw using fl_two_thirds_below by (simp add: fsub_def fdiv_def)
  have "flat_index_at_xy_of ?R ?p = Inr 2"
    unfolding flat_index_at_xy_of_def qr qc by (simp add: trunc_def)
  then have code: "no_throw_value_at_xy_of ?R ?p = Inr (Num 3)"
    by (simp add: no_throw_value_at_xy_of_def vec_at_def)
  have spec: "vec_at [Num 1, Num 2, Num 3]
      (nat ((3 * spec_row_index 0 1 1 (1 / 2)
             + spec_col_index 0 1 3 (6004799503160661 / 2 ^ 53)) mod 2 ^ 64)) = Inr (Num 2)"
    by (simp add: spec_row_index_def spec_col_index_def clamped_index_def vec_at_def)
  have rh3: "row_height \<lparr>values_r = [Num 1, Num 2, Num (3::real)], num_rows = 3, num_cols = 1,
                      x_min = Num 0, x_max = Num 1, y_min = Num 0, y_max = Num 1\<rparr>
               = Num (6004799503160661 / 2 ^ 54)"
    using fl_third by (simp add: row_height_def fsub_def fdiv_def of_size_t_def)
  have dec: "fdiv (fsub (Num 1) (Num (1 / 2 ^ 60))) (Num (6004799503160661 / 2 ^ 54)) = Num 3"
    using fl_near_1 fl_recip_third by (simp add: fsub_def fdiv_def)
  from code spec rh3 dec show ?thesis by simp
qed

text \<open>
  C6 (amended): for every grid raster and every point \<open>p\<close> inside the closed extent for
  which the two quotients \<open>(y_max - p.y) / row_height\<close> and
  \<open>(p.x - x_min) / col_width\<close>, computed in double arithmetic from the stored row height
  and column width, are finite and below \<open>2 ^ 64\<close>, both quotients are non-negative and
  \<^verbatim>\<open>no_throw_value_at_xy_of(p)\<close> returns \<^verbatim>\<open>values[num_cols * row_index + col_index]\<close>
  (the index in \<^verbatim>\<open>std::size_t\<close> arithmetic, the read being undefined where the index is
  not below the number of values), where the row index is the floor of the computed row
  quotient, decremented by one exactly when it equals \<^verbatim>\<open>num_rows\<close>, and the column index
  is the floor of the computed column quotient, decremented by one exactly when it equals
  \<^verbatim>\<open>num_cols\<close>.
\<close>

theorem no_throw_value_at_xy_of_computed_index:
  assumes "has_value_at_xy_of r p"
    and "fdiv (fsub (y_max r) (get_y p)) (row_height r) = Num qr"
    and "fdiv (fsub (get_x p) (x_min r)) (col_width r) = Num qc"
    and "qr < 2 ^ 64" and "qc < 2 ^ 64"
  shows "0 \<le> qr \<and> 0 \<le> qc \<and>
         no_throw_value_at_xy_of r p =
           vec_at (values_r r)
             (nat ((uint (num_cols r) * clamped_index (uint (num_rows r)) qr
                    + clamped_index (uint (num_cols r)) qc) mod 2 ^ 64))"
  using quotients_nonneg [OF assms(1)] assms(2,3)
  unfolding no_throw_value_at_xy_of_def flat_index_computed [OF assms] sum.case
    unat_word_of_int_64
  by simp

theorem no_throw_value_at_xy_of_computed_index_witness:
  "has_value_at_xy_of
      \<lparr>values_r = [Num 1, Num 2, Num 3, Num 4, Num 5, Num 6], num_rows = 2, num_cols = 3,
        x_min = Num 0, x_max = Num 3, y_min = Num 0, y_max = Num 2\<rparr> (Num 3, Num 0, Num 7) \<and>
   clamped_index 2 2 = 1 \<and> clamped_index 3 3 = 2 \<and>
   no_throw_value_at_xy_of
      \<lparr>values_r = [Num 1, Num 2, Num 3, Num 4, Num 5, Num 6], num_rows = 2, num_cols = 3,
        x_min = Num 0, x_max = Num 3, y_min = Num 0, y_max = Num 2\<rparr> (Num 3, Num 0, Num 7) = Inr (Num 6)"
proof -
  let ?R = "\<lparr>values_r = [Num 1, Num 2, Num 3, Num 4, Num 5, Num (6::real)], num_rows = 2, num_cols = 3,
        x_min = Num 0, x_max = Num 3, y_min = Num 0, y_max = Num 2\<rparr>"
  let ?p = "(Num 3, Num 0, Num 7)"
  have hv: "has_value_at_xy_of ?R ?p" by (simp add: has_value_at_xy_of_def)
  have rh: "row_height ?R = Num 1" and cw: "col_width ?R = Num 1"
    by (simp_all add: row_height_def col_width_def fsub_def fdiv_def of_size_t_def)
  have qr: "fdiv (fsub (y_max ?R) (get_y ?p)) (row_height ?R) = Num 2"
    unfolding rh by (simp add: fsub_def fdiv_def)
  have qc: "fdiv (fsub (get_x ?p) (x_min ?R)) (col_width ?R) = Num 3"
    unfolding cw by (simp add: fsub_def fdiv_def)
  have ci: "clamped_index 2 2 = 1" "clamped_index 3 3 = 2"
    by (simp_all add: clamped_index_def)
  from no_throw_value_at_xy_of_computed_index [OF hv qr qc] ci hv show ?thesis
    by (simp add: vec_at_def)
qed

text \<open>
  C10: the flat index that \<^verbatim>\<open>no_throw_value_at_xy_of\<close> computes is claimed to be below
  the number of values for every raster with at least one row and column,
  \<open>num_rows \<cdot> num_cols\<close> values, \<open>x_min < x_max\<close> and \<open>y_min < y_max\<close>, and every
  point with finite \<open>x\<close> and \<open>y\<close> in the extent. The code does not keep to that at two
  such inputs. With three columns over \<open>[0, 4 \<cdot> 2 ^ -1074]\<close> the column width rounds to
  \<open>2 ^ -1074\<close>, so at \<open>x = x_max\<close> the quotient is \<open>4\<close>, which is not the number of
  columns and is not decremented: the flat index is \<open>4\<close> with three values, and the read
  is out of bounds. With two columns over \<open>[-2 ^ 1023, 2 ^ 1023]\<close> the difference
  \<open>x_max - x_min\<close> overflows to infinity, the quotient at \<open>x = x_max\<close> is NaN, and its
  conversion to \<^verbatim>\<open>std::size_t\<close> is undefined.
\<close>

theorem no_throw_value_at_xy_of_out_of_bounds:
  "has_value_at_xy_of
      \<lparr>values_r = [Num 1, Num 2, Num 3], num_rows = 1, num_cols = 3,
       x_min = Num 0, x_max = Num (4 / 2 ^ 1074), y_min = Num 0, y_max = Num 1\<rparr>
      (Num (4 / 2 ^ 1074), Num (1 / 2), Num 0) \<and>
   flat_index_at_xy_of
      \<lparr>values_r = [Num 1, Num 2, Num 3], num_rows = 1, num_cols = 3,
       x_min = Num 0, x_max = Num (4 / 2 ^ 1074), y_min = Num 0, y_max = Num 1\<rparr>
      (Num (4 / 2 ^ 1074), Num (1 / 2), Num 0) = Inr 4 \<and>
   no_throw_value_at_xy_of
      \<lparr>values_r = [Num 1, Num 2, Num 3], num_rows = 1, num_cols = 3,
       x_min = Num 0, x_max = Num (4 / 2 ^ 1074), y_min = Num 0, y_max = Num 1\<rparr>
      (Num (4 / 2 ^ 1074), Num (1 / 2), Num 0) = Inl UndefinedBehaviour \<and>
   has_value_at_xy_of
      \<lparr>values_r = [Num 1, Num 2], num_rows = 1, num_cols = 2,
       x_min = Num (- (2 ^ 1023)), x_max = Num (2 ^ 1023), y_min = Num 0, y_max = Num 1\<rparr>
      (Num (2 ^ 1023), Num (1 / 2), Num 0) \<and>
   flat_index_at_xy_of
      \<lparr>values_r = [Num 1, Num 2], num_rows = 1, num_cols = 2,
       x_min = Num (- (2 ^ 1023)), x_max = Num (2 ^ 1023), y_min = Num 0, y_max = Num 1\<rparr>
      (Num (2 ^ 1023), Num (1 / 2), Num 0) = Inl UndefinedBehaviour"
proof -
  let ?R = "\<lparr>values_r = [Num 1, Num 2, Num (3::real)], num_rows = 1, num_cols = 3,
       x_min = Num 0, x_max = Num (4 / 2 ^ 1074), y_min = Num 0, y_max = Num 1\<rparr>"
  let ?p = "(Num (4 / 2 ^ 1074), Num (1 / 2), Num 0)"
  have hv: "has_value_at_xy_of ?R ?p" by (simp add: has_value_at_xy_of_def)
  have rh: "row_height ?R = Num 1"
    by (simp add: row_height_def fsub_def fdiv_def of_size_t_def)
  have cw: "col_width ?R = Num (1 / 2 ^ 1074)"
    using fl_subnormal_4 fl_subnormal_4_thirds
    by (simp add: col_width_def fsub_def fdiv_def of_size_t_def)
  have qr: "fdiv (fsub (y_max ?R) (get_y ?p)) (row_height ?R) = Num (1 / 2)"
    unfolding rh by (simp add: fsub_def fdiv_def)
  have qc: "fdiv (fsub (get_x ?p) (x_min ?R)) (col_width ?R) = Num 4"
    unfolding cw using fl_subnormal_4 by (simp add: fsub_def fdiv_def)
  have fi: "flat_index_at_xy_of ?R ?p = Inr 4"
    unfolding flat_index_at_xy_of_def qr qc by (simp add: trunc_def)
  then have nt: "no_throw_value_at_xy_of ?R ?p = Inl UndefinedBehaviour"
    by (simp add: no_throw_value_at_xy_of_def vec_at_def)
  let ?S = "\<lparr>values_r = [Num 1, Num (2::real)], num_rows = 1, num_cols = 2,
       x_min = Num (- (2 ^ 1023)), x_max = Num (2 ^ 1023), y_min = Num 0, y_max = Num 1\<rparr>"
  let ?q = "(Num (2 ^ 1023), Num (1 / 2), Num 0)"
  have hv2: "has_value_at_xy_of ?S ?q" by (simp add: has_value_at_xy_of_def)
  have rh2: "row_height ?S = Num 1"
    by (simp add: row_height_def fsub_def fdiv_def of_size_t_def)
  have cw2: "col_width ?S = PosInf"
    using fl_overflow by (simp add: col_width_def fsub_def fdiv_def of_size_t_def)
  have qr2: "fdiv (fsub (y_max ?S) (get_y ?q)) (row_height ?S) = Num (1 / 2)"
    unfolding rh2 by (simp add: fsub_def fdiv_def)
  have qc2: "fdiv (fsub (get_x ?q) (x_min ?S)) (col_width ?S) = NaN"
    unfolding cw2 using fl_overflow by (simp add: fsub_def fdiv_def)
  have fi2: "flat_index_at_xy_of ?S ?q = Inl UndefinedBehaviour"
    unfolding flat_index_at_xy_of_def qr2 qc2 by (simp add: trunc_def)
  from hv fi nt hv2 fi2 show ?thesis by simp
qed

theorem no_throw_value_at_xy_of_out_of_bounds_witness:
  "\<exists>i. flat_index_at_xy_of
          \<lparr>values_r = [Num 1, Num 2, Num 3], num_rows = 1, num_cols = 3,
           x_min = Num 0, x_max = Num (4 / 2 ^ 1074), y_min = Num 0, y_max = Num 1\<rparr>
          (Num (4 / 2 ^ 1074), Num (1 / 2), Num 0) = Inr i \<and>
        \<not> unat i < length [Num 1, Num 2, Num (3::real)]"
  using no_throw_value_at_xy_of_out_of_bounds by simp

section \<open>Filtering iterators: results\<close>






text \<open>The second iterator runs to its end, and the index is built, whenever the ground
  raster lookup is defined at every point with finite coordinates.\<close>

lemma fpag_yield_returns:
  "\<forall>p \<in> set ps. \<not> has_non_finite_coordinate_value p \<longrightarrow>
                 (\<exists>gh. no_throw_value_at_xy_of g p = Inr gh) \<Longrightarrow>
   \<exists>it ys. fpag_skip_loop m g ps = Inr it \<and> fpag_yield m g it = Inr ys"
proof (induction ps)
  case Nil
  then show ?case by simp
next
  case (Cons q qs)
  then obtain it ys where IH: "fpag_skip_loop m g qs = Inr it" "fpag_yield m g it = Inr ys"
    by auto
  show ?case
  proof (cases "has_non_finite_coordinate_value q")
    case True
    with IH show ?thesis by simp
  next
    case False
    with Cons.prems obtain gh where "no_throw_value_at_xy_of g q = Inr gh" by auto
    with False IH show ?thesis by (simp add: Let_def)
  qed
qed

lemma create_index_of_above_ground_returns:
  assumes "\<forall>p \<in> set points. \<not> has_non_finite_coordinate_value p \<longrightarrow>
                 (\<exists>gh. no_throw_value_at_xy_of g p = Inr gh)"
  shows "\<exists>idx. create_index_of_above_ground points m g = Inr idx"
  using fpag_yield_returns [OF assms, of m]
  by (auto simp add: create_index_of_above_ground_def fpag_cbegin_def)




end
